theory Spec2Isabelle
  imports Complex_Main
begin

section \<open>Wallet risk scoring: the engine, the normalizer and the batch pipeline\<close>

text \<open>
  A shallow embedding of \<^verbatim>\<open>risk_scorer.py\<close>, of \<^verbatim>\<open>analyze_transaction_patterns\<close> in
  \<^verbatim>\<open>compound_data_fetcher.py\<close> and of the per-wallet and batch processing in
  \<^verbatim>\<open>main.py\<close>.

  Numbers. Python's \<^verbatim>\<open>int\<close> and \<^verbatim>\<open>float\<close> values that the dictionaries hold are
  modelled by \<^typ>\<open>real\<close>: arithmetic and comparisons are exact; the rounding of IEEE
  doubles, their infinities and NaN are not modelled. \<^verbatim>\<open>risk_score\<close> is a Python
  \<^verbatim>\<open>int\<close> and is an \<^typ>\<open>int\<close> here.

  Exceptions are values: a function that can raise returns \<open>exn + 'a\<close>, with \<open>Inl\<close>
  the exception.
\<close>

subsection \<open>Exceptions and dictionaries\<close>

datatype exn =
    ZeroDivisionError
  | ValueError
  | KeyError string
  | OSError string
  | OtherError string

text \<open>
  \<^verbatim>\<open>str(e)\<close>: the message of an exception. The texts given for the two builtin
  exceptions stand for Python's own wording; no property below depends on them.
\<close>

fun str :: "exn \<Rightarrow> string" where
  "str ZeroDivisionError = ''division by zero''"
| "str ValueError = ''invalid literal''"
| "str (KeyError k) = CHR 0x27 # k @ [CHR 0x27]"
| "str (OSError msg) = msg"
| "str (OtherError msg) = msg"

text \<open>
  A dictionary of numeric entries, keyed by strings. \<^verbatim>\<open>d.get(k, default)\<close> is
  \<open>dict_get d k default\<close>.
\<close>

type_synonym dict = "string \<rightharpoonup> real"

definition dict_get :: "dict \<Rightarrow> string \<Rightarrow> real \<Rightarrow> real" where
  "dict_get d k dflt = (case d k of None \<Rightarrow> dflt | Some v \<Rightarrow> v)"

subsection \<open>The risk scoring engine (\<^verbatim>\<open>risk_scorer.py\<close>)\<close>

text \<open>\<^verbatim>\<open>self.weights\<close>, the risk factor weights.\<close>

definition weights :: "string \<rightharpoonup> real" where
  "weights =
     [''transaction_volume'' \<mapsto> 0.20,
      ''transaction_frequency'' \<mapsto> 0.15,
      ''protocol_experience'' \<mapsto> 0.25,
      ''balance_stability'' \<mapsto> 0.15,
      ''failure_rate'' \<mapsto> 0.10,
      ''counterparty_diversity'' \<mapsto> 0.10,
      ''recent_activity'' \<mapsto> 0.05]"

text \<open>The keys of \<^verbatim>\<open>self.weights\<close>, in the order the dictionary literal lists them.\<close>

definition factors :: "string list" where
  "factors =
     [''transaction_volume'', ''transaction_frequency'', ''protocol_experience'',
      ''balance_stability'', ''failure_rate'', ''counterparty_diversity'',
      ''recent_activity'']"

definition calculate_transaction_volume_score :: "dict \<Rightarrow> real" where
  "calculate_transaction_volume_score metrics =
     (let volume_eth = dict_get metrics ''total_value_eth'' 0 in
      if volume_eth \<ge> 1000 then 0.1
      else if volume_eth \<ge> 100 then 0.2
      else if volume_eth \<ge> 10 then 0.4
      else if volume_eth \<ge> 1 then 0.6
      else 0.9)"

definition calculate_frequency_score :: "dict \<Rightarrow> real" where
  "calculate_frequency_score metrics =
     (let frequency = dict_get metrics ''transaction_frequency'' 0 in
      if frequency \<ge> 1.0 then 0.1
      else if frequency \<ge> 0.5 then 0.2
      else if frequency \<ge> 0.1 then 0.4
      else if frequency > 0 then 0.7
      else 1.0)"

definition calculate_protocol_experience_score :: "dict \<Rightarrow> real" where
  "calculate_protocol_experience_score compound_data =
     (let compound_count = dict_get compound_data ''compound_count'' 0 in
      if compound_count \<ge> 50 then 0.05
      else if compound_count \<ge> 20 then 0.15
      else if compound_count \<ge> 10 then 0.3
      else if compound_count \<ge> 5 then 0.5
      else if compound_count > 0 then 0.7
      else 0.95)"

definition calculate_balance_stability_score :: "dict \<Rightarrow> dict \<Rightarrow> real" where
  "calculate_balance_stability_score balance_data metrics =
     (let current_balance = dict_get balance_data ''current_balance_eth'' 0;
          volume_eth = dict_get metrics ''total_value_eth'' 0;
          balance_to_volume_ratio = current_balance / max volume_eth 0.001;
          base_score =
            (if current_balance \<ge> 100 then 0.05
             else if current_balance \<ge> 10 then 0.15
             else if current_balance \<ge> 1 then 0.3
             else if current_balance \<ge> 0.1 then 0.6
             else 0.9);
          adjustment =
            (if balance_to_volume_ratio > 0.1 then - 0.1
             else if balance_to_volume_ratio < 0.01 then 0.2
             else 0)
      in max 0 (min 1 (base_score + adjustment)))"

definition calculate_failure_rate_score :: "dict \<Rightarrow> real" where
  "calculate_failure_rate_score metrics =
     (let failure_rate = dict_get metrics ''failed_transaction_rate'' 0 in
      if failure_rate = 0 then 0.0
      else if failure_rate \<le> 0.02 then 0.1
      else if failure_rate \<le> 0.05 then 0.3
      else if failure_rate \<le> 0.1 then 0.6
      else 1.0)"

text \<open>
  \<^verbatim>\<open>diversity_ratio = unique_counterparties / total_transactions\<close> is computed before
  the buckets are looked at and raises \<^verbatim>\<open>ZeroDivisionError\<close> when the divisor is zero;
  the ratio itself is not used afterwards.
\<close>

definition calculate_counterparty_diversity_score :: "dict \<Rightarrow> exn + real" where
  "calculate_counterparty_diversity_score metrics =
     (let unique_counterparties = dict_get metrics ''unique_counterparties'' 0;
          total_transactions = dict_get metrics ''total_transactions'' 1
      in if total_transactions = 0 then Inl ZeroDivisionError
         else
           (let diversity_ratio = unique_counterparties / total_transactions in
            if unique_counterparties \<ge> 100 then Inr 0.05
            else if unique_counterparties \<ge> 50 then Inr 0.15
            else if unique_counterparties \<ge> 20 then Inr 0.3
            else if unique_counterparties \<ge> 10 then Inr 0.5
            else if unique_counterparties > 0 then Inr 0.8
            else Inr 1.0))"

definition calculate_recent_activity_score :: "dict \<Rightarrow> real" where
  "calculate_recent_activity_score metrics =
     (let time_span_days = dict_get metrics ''time_span_days'' 0 in
      if time_span_days \<le> 30 then 0.1
      else if time_span_days \<le> 90 then 0.3
      else if time_span_days \<le> 180 then 0.5
      else if time_span_days \<le> 365 then 0.7
      else 1.0)"

text \<open>
  The result dictionary of the engine and of the pipeline. The engine's result has no
  \<^verbatim>\<open>error\<close> key and the error placeholder has no \<^verbatim>\<open>weighted_score\<close> key, so both are
  optional. \<^verbatim>\<open>component_scores\<close> keeps the insertion order of the \<^verbatim>\<open>scores\<close>
  dictionary, which the weighted sum iterates over.
\<close>

record risk_result =
  wallet_address :: string
  risk_score :: int
  risk_category :: string
  component_scores :: "(string \<times> real) list"
  weighted_score :: "real option"
  transaction_metrics :: dict
  compound_data :: dict
  balance_data :: dict
  error :: "string option"

text \<open>
  \<^verbatim>\<open>sum(scores[factor] * self.weights[factor] for factor in scores)\<close>; a factor without
  a weight would raise \<^verbatim>\<open>KeyError\<close>.
\<close>

fun weighted_sum :: "(string \<times> real) list \<Rightarrow> exn + real" where
  "weighted_sum [] = Inr 0"
| "weighted_sum ((factor, score) # rest) =
     (case weights factor of
        None \<Rightarrow> Inl (KeyError factor)
      | Some w \<Rightarrow>
          (case weighted_sum rest of
             Inl e \<Rightarrow> Inl e
           | Inr others \<Rightarrow> Inr (score * w + others)))"

text \<open>\<^verbatim>\<open>int(x)\<close> on a float: truncation toward zero.\<close>

definition py_int :: "real \<Rightarrow> int" where
  "py_int x = (if x \<ge> 0 then \<lfloor>x\<rfloor> else \<lceil>x\<rceil>)"

text \<open>The category chain of \<^verbatim>\<open>calculate_risk_score\<close> (lines 171 to 180).\<close>

definition risk_category_of :: "int \<Rightarrow> string" where
  "risk_category_of score =
     (if score \<le> 200 then ''Very Low Risk''
      else if score \<le> 400 then ''Low Risk''
      else if score \<le> 600 then ''Medium Risk''
      else if score \<le> 800 then ''High Risk''
      else ''Very High Risk'')"

definition calculate_risk_score ::
  "string \<Rightarrow> dict \<Rightarrow> dict \<Rightarrow> dict \<Rightarrow> exn + risk_result" where
  "calculate_risk_score address metrics compound balance =
     (let volume = calculate_transaction_volume_score metrics;
          frequency = calculate_frequency_score metrics;
          protocol = calculate_protocol_experience_score compound;
          stability = calculate_balance_stability_score balance metrics;
          failure = calculate_failure_rate_score metrics
      in case calculate_counterparty_diversity_score metrics of
           Inl e \<Rightarrow> Inl e
         | Inr diversity \<Rightarrow>
             (let recent = calculate_recent_activity_score metrics;
                  scores =
                    [(''transaction_volume'', volume),
                     (''transaction_frequency'', frequency),
                     (''protocol_experience'', protocol),
                     (''balance_stability'', stability),
                     (''failure_rate'', failure),
                     (''counterparty_diversity'', diversity),
                     (''recent_activity'', recent)]
              in case weighted_sum scores of
                   Inl e \<Rightarrow> Inl e
                 | Inr weighted \<Rightarrow>
                     (let score = py_int (weighted * 1000) in
                      Inr \<lparr> wallet_address = address,
                            risk_score = score,
                            risk_category = risk_category_of score,
                            component_scores = scores,
                            weighted_score = Some weighted,
                            transaction_metrics = metrics,
                            compound_data = compound,
                            balance_data = balance,
                            error = None \<rparr>)))"

text \<open>
  The value of the weighted sum over the seven scores, given the diversity score \<open>d\<close>;
  the terms stand in the order of the summation.
\<close>

definition weighted_of :: "dict \<Rightarrow> dict \<Rightarrow> dict \<Rightarrow> real \<Rightarrow> real" where
  "weighted_of m c b d =
     calculate_transaction_volume_score m * 0.20 +
       (calculate_frequency_score m * 0.15 +
       (calculate_protocol_experience_score c * 0.25 +
       (calculate_balance_stability_score b m * 0.15 +
       (calculate_failure_rate_score m * 0.10 +
       (d * 0.10 +
       (calculate_recent_activity_score m * 0.05 + 0))))))"

subsection \<open>The metrics normalizer (\<^verbatim>\<open>analyze_transaction_patterns\<close>)\<close>

text \<open>
  A raw transaction is a dictionary of provider-supplied strings. The normalizer reads
  \<^verbatim>\<open>value\<close> through \<^verbatim>\<open>float(...)\<close> and \<^verbatim>\<open>timeStamp\<close> through \<^verbatim>\<open>int(...)\<close>; such a
  field is represented by what the builtin makes of it: \<open>Parsed x\<close> when it converts to
  \<open>x\<close>, \<open>Unparsable\<close> when the conversion raises \<^verbatim>\<open>ValueError\<close>, \<open>Absent\<close> when the key
  is missing (for \<^verbatim>\<open>timeStamp\<close> also when the value is falsy, such as the empty string,
  which the comprehension's filter skips). The other fields are the string under the
  key, if any.
\<close>

datatype 'a field = Absent | Parsed 'a | Unparsable

record transaction =
  tx_value :: "real field"
  tx_isError :: "string option"
  tx_to :: "string option"
  tx_from :: "string option"
  tx_timeStamp :: "int field"

text \<open>\<^verbatim>\<open>float(tx.get('value', 0))\<close>\<close>

definition float_value :: "transaction \<Rightarrow> exn + real" where
  "float_value tx =
     (case tx_value tx of
        Absent \<Rightarrow> Inr 0
      | Parsed v \<Rightarrow> Inr v
      | Unparsable \<Rightarrow> Inl ValueError)"

text \<open>\<^verbatim>\<open>sum(float(tx.get('value', 0)) for tx in transactions)\<close>, from the accumulator 0.\<close>

fun sum_values :: "real \<Rightarrow> transaction list \<Rightarrow> exn + real" where
  "sum_values acc [] = Inr acc"
| "sum_values acc (tx # txs) =
     (case float_value tx of
        Inl e \<Rightarrow> Inl e
      | Inr v \<Rightarrow> sum_values (acc + v) txs)"

text \<open>
  \<^verbatim>\<open>[int(tx.get('timeStamp', 0)) for tx in transactions if tx.get('timeStamp')]\<close>
\<close>

fun timestamps_of :: "transaction list \<Rightarrow> exn + int list" where
  "timestamps_of [] = Inr []"
| "timestamps_of (tx # txs) =
     (case tx_timeStamp tx of
        Absent \<Rightarrow> timestamps_of txs
      | Unparsable \<Rightarrow> Inl ValueError
      | Parsed t \<Rightarrow>
          (case timestamps_of txs of
             Inl e \<Rightarrow> Inl e
           | Inr ts \<Rightarrow> Inr (t # ts)))"

text \<open>\<^verbatim>\<open>tx.get(key, '')\<close> for the two address fields.\<close>

definition or_empty :: "string option \<Rightarrow> string" where
  "or_empty v = (case v of None \<Rightarrow> [] | Some s \<Rightarrow> s)"

text \<open>The loop that adds \<^verbatim>\<open>to\<close> and then \<^verbatim>\<open>from\<close> of every transaction to a set.\<close>

definition counterparties_of :: "transaction list \<Rightarrow> string set" where
  "counterparties_of txs =
     fold (\<lambda>tx s. insert (or_empty (tx_from tx)) (insert (or_empty (tx_to tx)) s)) txs {}"

definition analyze_transaction_patterns :: "transaction list \<Rightarrow> exn + dict" where
  "analyze_transaction_patterns transactions =
     (if transactions = [] then
        Inr [''total_transactions'' \<mapsto> 0,
             ''avg_transaction_value'' \<mapsto> 0,
             ''transaction_frequency'' \<mapsto> 0,
             ''failed_transactions'' \<mapsto> 0,
             ''unique_counterparties'' \<mapsto> 0,
             ''time_span_days'' \<mapsto> 0]
      else
        (let total_txs = real (length transactions) in
         case sum_values 0 transactions of
           Inl e \<Rightarrow> Inl e
         | Inr total_value \<Rightarrow>
             (let avg_value = (if total_txs > 0 then total_value / total_txs else 0);
                  failed_txs =
                    real (length (filter (\<lambda>tx. tx_isError tx = Some ''1'') transactions));
                  counterparties = counterparties_of transactions
              in case timestamps_of transactions of
                   Inl e \<Rightarrow> Inl e
                 | Inr timestamps \<Rightarrow>
                     (let (time_span, frequency) =
                            (case timestamps of
                               [] \<Rightarrow> (0, 0)
                             | t # ts \<Rightarrow>
                                 (let time_span =
                                        real_of_int (fold max ts t - fold min ts t) / (24 * 3600)
                                  in (time_span, total_txs / max time_span 1)))
                      in Inr [''total_transactions'' \<mapsto> total_txs,
                              ''avg_transaction_value'' \<mapsto> avg_value,
                              ''transaction_frequency'' \<mapsto> frequency,
                              ''failed_transactions'' \<mapsto> failed_txs,
                              ''failed_transaction_rate'' \<mapsto>
                                (if total_txs > 0 then failed_txs / total_txs else 0),
                              ''unique_counterparties'' \<mapsto> real (card counterparties),
                              ''time_span_days'' \<mapsto> time_span,
                              ''total_value_eth'' \<mapsto> total_value / 10 ^ 18]))))"

subsection \<open>Per-wallet processing (\<^verbatim>\<open>process_wallet\<close>)\<close>

text \<open>
  The chain data provider is outside the core. A call answers with a success dictionary
  (\<open>Success\<close>, its payload), with \<^verbatim>\<open>{'success': False, 'error': msg}\<close> (\<open>Failure msg\<close>),
  or raises (\<open>Raises\<close>). Of the protocol-usage and balance dictionaries the numeric
  entries are kept (\<^verbatim>\<open>'success': True\<close> is the number 1); the list under
  \<^verbatim>\<open>compound_transactions\<close>, which nothing reads, is left out.
\<close>

datatype 'a response = Success 'a | Failure string | Raises exn

record provider =
  get_wallet_transactions :: "string \<Rightarrow> transaction list response"
  get_compound_interactions :: "string \<Rightarrow> dict response"
  get_wallet_balance_history :: "string \<Rightarrow> dict response"

definition create_error_result :: "string \<Rightarrow> string \<Rightarrow> risk_result" where
  "create_error_result address error_message =
     \<lparr> wallet_address = address,
       risk_score = 999,
       risk_category = ''Error - Unable to Assess'',
       component_scores = [],
       weighted_score = None,
       transaction_metrics = Map.empty,
       compound_data = Map.empty,
       balance_data = Map.empty,
       error = Some error_message \<rparr>"

text \<open>The defaults that replace a failed protocol-usage and a failed balance answer.\<close>

definition default_compound_data :: dict where
  "default_compound_data = [''success'' \<mapsto> 1, ''compound_count'' \<mapsto> 0]"

definition default_balance_data :: dict where
  "default_balance_data = [''success'' \<mapsto> 1, ''current_balance_eth'' \<mapsto> 0]"

text \<open>
  \<^verbatim>\<open>if not data['success']: data = default\<close>: a failure answer is replaced by the
  default, an exception of the call propagates.
\<close>

definition or_default :: "dict response \<Rightarrow> dict \<Rightarrow> exn + dict" where
  "or_default answer dflt =
     (case answer of
        Raises e \<Rightarrow> Inl e
      | Failure msg \<Rightarrow> Inr dflt
      | Success d \<Rightarrow> Inr d)"

text \<open>The body of the \<^verbatim>\<open>try\<close> block of \<^verbatim>\<open>process_wallet\<close>.\<close>

definition process_wallet_body :: "provider \<Rightarrow> string \<Rightarrow> exn + risk_result" where
  "process_wallet_body p address =
     (case get_wallet_transactions p address of
        Raises e \<Rightarrow> Inl e
      | Failure msg \<Rightarrow>
          Inr (create_error_result address (''Transaction fetch error: '' @ msg))
      | Success transactions \<Rightarrow>
          (case analyze_transaction_patterns transactions of
             Inl e \<Rightarrow> Inl e
           | Inr tx_metrics \<Rightarrow>
               (case or_default (get_compound_interactions p address) default_compound_data of
                  Inl e \<Rightarrow> Inl e
                | Inr compound \<Rightarrow>
                    (case or_default (get_wallet_balance_history p address)
                            default_balance_data of
                       Inl e \<Rightarrow> Inl e
                     | Inr balance \<Rightarrow>
                         calculate_risk_score address tx_metrics compound balance))))"

text \<open>\<^verbatim>\<open>except Exception as e: return self._create_error_result(wallet_address, str(e))\<close>\<close>

definition process_wallet :: "provider \<Rightarrow> string \<Rightarrow> risk_result" where
  "process_wallet p address =
     (case process_wallet_body p address of
        Inl e \<Rightarrow> create_error_result address (str e)
      | Inr result \<Rightarrow> result)"

subsection \<open>The batch pipeline (\<^verbatim>\<open>process_wallet_list\<close>)\<close>

text \<open>
  A row of the output table, as \<^verbatim>\<open>_create_results_dataframe\<close> builds it. The column
  \<^verbatim>\<open>processed_at\<close> is a clock reading and is not modelled.
\<close>

record row =
  col_wallet_id :: string
  col_risk_score :: int
  col_risk_category :: string
  col_total_transactions :: real
  col_compound_interactions :: real
  col_current_balance_eth :: real
  col_transaction_volume_eth :: real
  col_transaction_frequency :: real
  col_failed_transaction_rate :: real
  col_unique_counterparties :: real
  col_error :: string

definition row_of :: "risk_result \<Rightarrow> row" where
  "row_of result =
     \<lparr> col_wallet_id = wallet_address result,
       col_risk_score = risk_score result,
       col_risk_category = risk_category result,
       col_total_transactions = dict_get (transaction_metrics result) ''total_transactions'' 0,
       col_compound_interactions = dict_get (compound_data result) ''compound_count'' 0,
       col_current_balance_eth = dict_get (balance_data result) ''current_balance_eth'' 0,
       col_transaction_volume_eth = dict_get (transaction_metrics result) ''total_value_eth'' 0,
       col_transaction_frequency =
         dict_get (transaction_metrics result) ''transaction_frequency'' 0,
       col_failed_transaction_rate =
         dict_get (transaction_metrics result) ''failed_transaction_rate'' 0,
       col_unique_counterparties =
         dict_get (transaction_metrics result) ''unique_counterparties'' 0,
       col_error = (case error result of None \<Rightarrow> [] | Some msg \<Rightarrow> msg) \<rparr>"

definition create_results_dataframe :: "risk_result list \<Rightarrow> row list" where
  "create_results_dataframe results = map row_of results"

text \<open>
  Writing a table to a file is the record store's business: \<open>to_csv filename table\<close>
  is \<open>None\<close> when \<^verbatim>\<open>df.to_csv(filename, index=False)\<close> returns and \<open>Some e\<close> when it
  raises \<open>e\<close> (for example \<^verbatim>\<open>OSError\<close> for a directory that does not exist).
\<close>

type_synonym store = "string \<Rightarrow> row list \<Rightarrow> exn option"

definition save_intermediate_results :: "store \<Rightarrow> risk_result list \<Rightarrow> string \<Rightarrow> exn option" where
  "save_intermediate_results to_csv results filename =
     to_csv filename (create_results_dataframe results)"

text \<open>
  The \<^verbatim>\<open>for i, wallet_address in enumerate(wallet_addresses, 1)\<close> loop, with the list
  \<^verbatim>\<open>results\<close> as its state. Inside the \<^verbatim>\<open>try\<close>, the result is appended first and the
  checkpoint is written afterwards, every tenth wallet; the handler of the \<^verbatim>\<open>try\<close>
  appends an error placeholder for the wallet at hand. The fixed delay is not modelled.
\<close>

fun process_wallets ::
  "provider \<Rightarrow> store \<Rightarrow> string \<Rightarrow> nat \<Rightarrow> string list \<Rightarrow> risk_result list \<Rightarrow> risk_result list"
  where
  "process_wallets p to_csv output_file i [] results = results"
| "process_wallets p to_csv output_file i (address # rest) results =
     (let result = process_wallet p address;
          appended = results @ [result]
      in if i mod 10 = 0 then
           (case save_intermediate_results to_csv appended (''temp_'' @ output_file) of
              None \<Rightarrow> process_wallets p to_csv output_file (i + 1) rest appended
            | Some e \<Rightarrow>
                process_wallets p to_csv output_file (i + 1) rest
                  (appended @ [create_error_result address (''Critical error: '' @ str e)]))
         else process_wallets p to_csv output_file (i + 1) rest appended)"

text \<open>
  \<^verbatim>\<open>_print_summary_statistics\<close> only prints, so what is kept of it is whether it
  returns. A table built from an empty list of results has no columns, and the first
  selection \<^verbatim>\<open>df['error']\<close> raises \<^verbatim>\<open>KeyError\<close>; on a table with at least one row every
  column exists and each division is guarded by a count that is positive.
\<close>

definition print_summary_statistics :: "row list \<Rightarrow> exn option" where
  "print_summary_statistics df = (if df = [] then Some (KeyError ''error'') else None)"

text \<open>
  \<^verbatim>\<open>process_wallet_list\<close> from the list of addresses read from the input table: the
  loop, the final table, its write, which can raise, and the summary.
\<close>

definition process_wallet_list ::
  "provider \<Rightarrow> store \<Rightarrow> string list \<Rightarrow> string \<Rightarrow> exn + row list" where
  "process_wallet_list p to_csv wallet_addresses output_file =
     (let results = process_wallets p to_csv output_file 1 wallet_addresses [];
          df_results = create_results_dataframe results
      in case to_csv output_file df_results of
           Some e \<Rightarrow> Inl e
         | None \<Rightarrow>
             (case print_summary_statistics df_results of
                Some e \<Rightarrow> Inl e
              | None \<Rightarrow> Inr df_results))"

section \<open>Properties of the scoring engine\<close>

subsection \<open>Ranges of the factor scorers\<close>

lemma clamp01: "0 \<le> max 0 (min 1 (x::real)) \<and> max 0 (min 1 x) \<le> 1"
  by simp

lemma volume_bounds:
  "0.1 \<le> calculate_transaction_volume_score m \<and> calculate_transaction_volume_score m \<le> 0.9"
  by (simp add: calculate_transaction_volume_score_def Let_def)

lemma frequency_bounds:
  "0.1 \<le> calculate_frequency_score m \<and> calculate_frequency_score m \<le> 1"
  by (simp add: calculate_frequency_score_def Let_def)

lemma protocol_bounds:
  "0.05 \<le> calculate_protocol_experience_score c \<and> calculate_protocol_experience_score c \<le> 0.95"
  by (simp add: calculate_protocol_experience_score_def Let_def)

lemma balance_bounds:
  "0 \<le> calculate_balance_stability_score b m \<and> calculate_balance_stability_score b m \<le> 1"
  unfolding calculate_balance_stability_score_def Let_def by (rule clamp01)

lemma failure_bounds:
  "0 \<le> calculate_failure_rate_score m \<and> calculate_failure_rate_score m \<le> 1"
  by (simp add: calculate_failure_rate_score_def Let_def)

lemma recent_bounds:
  "0.1 \<le> calculate_recent_activity_score m \<and> calculate_recent_activity_score m \<le> 1"
  by (simp add: calculate_recent_activity_score_def Let_def)

lemma diversity_cases:
  "calculate_counterparty_diversity_score m =
     (if dict_get m ''total_transactions'' 1 = 0 then Inl ZeroDivisionError
      else Inr (if dict_get m ''unique_counterparties'' 0 \<ge> 100 then 0.05
            else if dict_get m ''unique_counterparties'' 0 \<ge> 50 then 0.15
            else if dict_get m ''unique_counterparties'' 0 \<ge> 20 then 0.3
            else if dict_get m ''unique_counterparties'' 0 \<ge> 10 then 0.5
            else if dict_get m ''unique_counterparties'' 0 > 0 then 0.8
            else 1.0))"
  by (simp add: calculate_counterparty_diversity_score_def Let_def)

lemma diversity_bounds:
  "calculate_counterparty_diversity_score m = Inr d \<Longrightarrow> 0.05 \<le> d \<and> d \<le> 1"
  by (auto simp add: diversity_cases split: if_splits)

lemma diversity_raises:
  "calculate_counterparty_diversity_score m = Inl e \<Longrightarrow>
     e = ZeroDivisionError \<and> dict_get m ''total_transactions'' 1 = 0"
  by (auto simp add: diversity_cases split: if_splits)

lemma diversity_returns:
  "dict_get m ''total_transactions'' 1 \<noteq> 0 \<Longrightarrow>
     \<exists>d. calculate_counterparty_diversity_score m = Inr d"
  by (simp add: diversity_cases)

lemma weighted_sum_seven:
  "weighted_sum
     [(''transaction_volume'', v), (''transaction_frequency'', f), (''protocol_experience'', p),
      (''balance_stability'', s), (''failure_rate'', r), (''counterparty_diversity'', d),
      (''recent_activity'', t)]
   = Inr (v * 0.20 + (f * 0.15 + (p * 0.25 + (s * 0.15 + (r * 0.10 + (d * 0.10 + (t * 0.05 + 0)))))))"
  by (simp add: weights_def)

lemma calculate_risk_score_Inl:
  "calculate_counterparty_diversity_score m = Inl e \<Longrightarrow> calculate_risk_score a m c b = Inl e"
  by (simp add: calculate_risk_score_def Let_def)

lemma calculate_risk_score_Inr:
  assumes "calculate_counterparty_diversity_score m = Inr d"
  shows "calculate_risk_score a m c b =
    Inr \<lparr> wallet_address = a,
          risk_score = py_int (weighted_of m c b d * 1000),
          risk_category = risk_category_of (py_int (weighted_of m c b d * 1000)),
          component_scores =
            [(''transaction_volume'', calculate_transaction_volume_score m),
             (''transaction_frequency'', calculate_frequency_score m),
             (''protocol_experience'', calculate_protocol_experience_score c),
             (''balance_stability'', calculate_balance_stability_score b m),
             (''failure_rate'', calculate_failure_rate_score m),
             (''counterparty_diversity'', d),
             (''recent_activity'', calculate_recent_activity_score m)],
          weighted_score = Some (weighted_of m c b d),
          transaction_metrics = m,
          compound_data = c,
          balance_data = b,
          error = None \<rparr>"
  unfolding calculate_risk_score_def Let_def weighted_sum_seven weighted_of_def
  by (simp only: assms sum.case)

lemma calculate_risk_score_returns_iff:
  "(\<exists>r. calculate_risk_score a m c b = Inr r) = (dict_get m ''total_transactions'' 1 \<noteq> 0)"
proof (cases "calculate_counterparty_diversity_score m")
  case (Inl e)
  then show ?thesis
    using diversity_raises [OF Inl] by (simp add: calculate_risk_score_Inl)
next
  case (Inr d)
  then have "dict_get m ''total_transactions'' 1 \<noteq> 0"
    by (auto simp add: diversity_cases split: if_splits)
  then show ?thesis
    by (simp add: calculate_risk_score_Inr [OF Inr])
qed

lemma lin7:
  fixes v f p s r d t :: real
  assumes "0.1 \<le> v \<and> v \<le> 0.9" "0.1 \<le> f \<and> f \<le> 1" "0.05 \<le> p \<and> p \<le> 0.95"
    "0 \<le> s \<and> s \<le> 1" "0 \<le> r \<and> r \<le> 1" "0.05 \<le> d \<and> d \<le> 1" "0.1 \<le> t \<and> t \<le> 1"
  shows "0 \<le> v * 0.20 + (f * 0.15 + (p * 0.25 + (s * 0.15 + (r * 0.10 + (d * 0.10 + (t * 0.05 + 0)))))) \<and>
     v * 0.20 + (f * 0.15 + (p * 0.25 + (s * 0.15 + (r * 0.10 + (d * 0.10 + (t * 0.05 + 0)))))) \<le> 0.9675"
  using assms by simp

lemma weighted_of_bounds:
  assumes "0.05 \<le> d \<and> d \<le> 1"
  shows "0 \<le> weighted_of m c b d \<and> weighted_of m c b d \<le> 0.9675"
  unfolding weighted_of_def
  by (rule lin7 [OF volume_bounds frequency_bounds protocol_bounds balance_bounds
        failure_bounds assms recent_bounds])

lemma py_int_nonneg: "0 \<le> x \<Longrightarrow> py_int x = \<lfloor>x\<rfloor>"
  by (simp add: py_int_def)

lemma py_int_bounds:
  assumes "0 \<le> w" "w \<le> 0.9675"
  shows "0 \<le> py_int (w * 1000) \<and> py_int (w * 1000) \<le> 967"
proof -
  have "0 \<le> w * 1000" using assms by simp
  then have eq: "py_int (w * 1000) = \<lfloor>w * 1000\<rfloor>" by (simp add: py_int_def)
  have "w * 1000 < 968" using assms by simp
  then have "\<lfloor>w * 1000\<rfloor> < 968" by (simp add: floor_less_iff)
  moreover have "0 \<le> \<lfloor>w * 1000\<rfloor>" using \<open>0 \<le> w * 1000\<close> by simp
  ultimately show ?thesis using eq by simp
qed


subsection \<open>The aggregate score and its category\<close>

lemma weights_sum: "dom weights = set factors \<and> (\<Sum>f\<leftarrow>factors. dict_get weights f 0) = 1"
  by (auto simp add: weights_def factors_def dict_get_def split: if_splits)

lemma risk_score_result_bounds:
  "case calculate_risk_score a m c b of
     Inl e \<Rightarrow> dict_get m ''total_transactions'' 1 = 0
   | Inr r \<Rightarrow>
       list_all (\<lambda>(f, s). 0 \<le> s \<and> s \<le> 1) (component_scores r) \<and>
       map fst (component_scores r) = factors \<and>
       (\<exists>w. weighted_score r = Some w \<and> 0 \<le> w \<and> w \<le> 1) \<and>
       0 \<le> risk_score r \<and> risk_score r \<le> 1000"
proof (cases "calculate_counterparty_diversity_score m")
  case (Inl e)
  then show ?thesis
    using diversity_raises [OF Inl] by (simp add: calculate_risk_score_Inl)
next
  case (Inr d)
  have d: "0.05 \<le> d \<and> d \<le> 1" by (rule diversity_bounds [OF Inr])
  have w: "0 \<le> weighted_of m c b d \<and> weighted_of m c b d \<le> 0.9675"
    by (rule weighted_of_bounds [OF d])
  then have s: "0 \<le> py_int (weighted_of m c b d * 1000) \<and> py_int (weighted_of m c b d * 1000) \<le> 967"
    by (simp add: py_int_bounds)
  have w1: "weighted_of m c b d \<le> 1" using w by simp
  show ?thesis
    using d w w1 s volume_bounds [of m] frequency_bounds [of m] protocol_bounds [of c]
      balance_bounds [of b m] failure_bounds [of m] recent_bounds [of m]
    by (simp add: calculate_risk_score_Inr [OF Inr] factors_def)
qed

lemma py_int_truncates:
  "\<bar>real_of_int (py_int x)\<bar> \<le> \<bar>x\<bar> \<and> \<bar>x\<bar> < \<bar>real_of_int (py_int x)\<bar> + 1 \<and>
   0 \<le> real_of_int (py_int x) * x"
proof (cases "0 \<le> x")
  case True
  then have "py_int x = \<lfloor>x\<rfloor>" by (simp add: py_int_def)
  moreover have "0 \<le> \<lfloor>x\<rfloor>" using True by simp
  moreover have "real_of_int \<lfloor>x\<rfloor> \<le> x" "x < real_of_int \<lfloor>x\<rfloor> + 1" by linarith+
  ultimately show ?thesis using True by (simp add: abs_if)
next
  case False
  then have e: "py_int x = \<lceil>x\<rceil>" by (simp add: py_int_def)
  have c: "\<lceil>x\<rceil> \<le> 0" using False by (simp add: ceiling_le_iff)
  then have r: "real_of_int \<lceil>x\<rceil> \<le> 0" by simp
  have b: "x \<le> real_of_int \<lceil>x\<rceil>" "real_of_int \<lceil>x\<rceil> < x + 1" by linarith+
  have a1: "\<bar>real_of_int \<lceil>x\<rceil>\<bar> = - real_of_int \<lceil>x\<rceil>" using r by linarith
  have a2: "\<bar>x\<bar> = - x" using False by linarith
  have p: "0 \<le> real_of_int \<lceil>x\<rceil> * x"
    using r False by (intro mult_nonpos_nonpos) simp_all
  have "- real_of_int \<lceil>x\<rceil> \<le> - x" "- x < - real_of_int \<lceil>x\<rceil> + 1"
    using b by linarith+
  then show ?thesis unfolding e a1 a2 using p by blast
qed

lemma category_intervals:
  "(risk_category_of s = ''Very Low Risk'') = (s \<le> 200) \<and>
   (risk_category_of s = ''Low Risk'') = (200 < s \<and> s \<le> 400) \<and>
   (risk_category_of s = ''Medium Risk'') = (400 < s \<and> s \<le> 600) \<and>
   (risk_category_of s = ''High Risk'') = (600 < s \<and> s \<le> 800) \<and>
   (risk_category_of s = ''Very High Risk'') = (800 < s)"
  by (simp add: risk_category_of_def)

lemma category_boundaries:
  "risk_category_of 200 = ''Very Low Risk'' \<and> risk_category_of 201 = ''Low Risk'' \<and>
   risk_category_of 400 = ''Low Risk'' \<and> risk_category_of 401 = ''Medium Risk'' \<and>
   risk_category_of 600 = ''Medium Risk'' \<and> risk_category_of 601 = ''High Risk'' \<and>
   risk_category_of 800 = ''High Risk'' \<and> risk_category_of 801 = ''Very High Risk''"
  by (simp add: risk_category_of_def)

lemma risk_score_is_truncation:
  "case calculate_risk_score a m c b of
     Inl e \<Rightarrow> dict_get m ''total_transactions'' 1 = 0
   | Inr r \<Rightarrow>
       (\<exists>w. weighted_score r = Some w \<and> risk_score r = py_int (w * 1000) \<and>
            risk_score r = \<lfloor>w * 1000\<rfloor>) \<and>
       risk_category r = risk_category_of (risk_score r)"
proof (cases "calculate_counterparty_diversity_score m")
  case (Inl e)
  then show ?thesis
    using diversity_raises [OF Inl] by (simp add: calculate_risk_score_Inl)
next
  case (Inr d)
  have "0 \<le> weighted_of m c b d"
    using weighted_of_bounds [OF diversity_bounds [OF Inr]] by simp
  then have "py_int (weighted_of m c b d * 1000) = \<lfloor>weighted_of m c b d * 1000\<rfloor>"
    by (simp add: py_int_def)
  then show ?thesis
    by (simp add: calculate_risk_score_Inr [OF Inr])
qed


text \<open>
  C3. Each of the seven factor scores lies in \<open>[0, 1]\<close>; the seven weights sum to 1;
  hence the weighted score lies in \<open>[0, 1]\<close> and the risk score in \<open>[0, 1000]\<close>. Six
  scorers return for every dictionary. The diversity scorer, and with it
  \<^verbatim>\<open>calculate_risk_score\<close>, returns exactly when \<^verbatim>\<open>total_transactions\<close> (1 when the key
  is missing) is not zero, and the bounds hold for every value returned.
\<close>

theorem factor_scores_weighted_score_risk_score_in_range:
  "(0 \<le> calculate_transaction_volume_score m \<and> calculate_transaction_volume_score m \<le> 1) \<and>
   (0 \<le> calculate_frequency_score m \<and> calculate_frequency_score m \<le> 1) \<and>
   (0 \<le> calculate_protocol_experience_score c \<and> calculate_protocol_experience_score c \<le> 1) \<and>
   (0 \<le> calculate_balance_stability_score b m \<and> calculate_balance_stability_score b m \<le> 1) \<and>
   (0 \<le> calculate_failure_rate_score m \<and> calculate_failure_rate_score m \<le> 1) \<and>
   (0 \<le> calculate_recent_activity_score m \<and> calculate_recent_activity_score m \<le> 1) \<and>
   (case calculate_counterparty_diversity_score m of
      Inl e \<Rightarrow> dict_get m ''total_transactions'' 1 = 0
    | Inr d \<Rightarrow> dict_get m ''total_transactions'' 1 \<noteq> 0 \<and> 0 \<le> d \<and> d \<le> 1) \<and>
   (dom weights = set factors \<and> (\<Sum>f\<leftarrow>factors. dict_get weights f 0) = 1) \<and>
   (case calculate_risk_score a m c b of
      Inl e \<Rightarrow> dict_get m ''total_transactions'' 1 = 0
    | Inr r \<Rightarrow>
        dict_get m ''total_transactions'' 1 \<noteq> 0 \<and>
        list_all (\<lambda>(f, s). 0 \<le> s \<and> s \<le> 1) (component_scores r) \<and>
        map fst (component_scores r) = factors \<and>
        (\<exists>w. weighted_score r = Some w \<and> 0 \<le> w \<and> w \<le> 1) \<and>
        0 \<le> risk_score r \<and> risk_score r \<le> 1000)"
proof -
  have v: "0 \<le> calculate_transaction_volume_score m \<and> calculate_transaction_volume_score m \<le> 1"
    using volume_bounds [of m] by simp
  have f: "0 \<le> calculate_frequency_score m \<and> calculate_frequency_score m \<le> 1"
    using frequency_bounds [of m] by simp
  have p: "0 \<le> calculate_protocol_experience_score c \<and> calculate_protocol_experience_score c \<le> 1"
    using protocol_bounds [of c] by simp
  have t: "0 \<le> calculate_recent_activity_score m \<and> calculate_recent_activity_score m \<le> 1"
    using recent_bounds [of m] by simp
  have d: "case calculate_counterparty_diversity_score m of
      Inl e \<Rightarrow> dict_get m ''total_transactions'' 1 = 0
    | Inr d \<Rightarrow> dict_get m ''total_transactions'' 1 \<noteq> 0 \<and> 0 \<le> d \<and> d \<le> 1"
    by (simp add: diversity_cases)
  have r: "case calculate_risk_score a m c b of
      Inl e \<Rightarrow> dict_get m ''total_transactions'' 1 = 0
    | Inr r \<Rightarrow>
        dict_get m ''total_transactions'' 1 \<noteq> 0 \<and>
        list_all (\<lambda>(f, s). 0 \<le> s \<and> s \<le> 1) (component_scores r) \<and>
        map fst (component_scores r) = factors \<and>
        (\<exists>w. weighted_score r = Some w \<and> 0 \<le> w \<and> w \<le> 1) \<and>
        0 \<le> risk_score r \<and> risk_score r \<le> 1000"
    using risk_score_result_bounds [where a = a and m = m and c = c and b = b]
      calculate_risk_score_returns_iff [of a m c b]
    by (cases "calculate_risk_score a m c b") auto
  show ?thesis
    using v f p balance_bounds [of b m] failure_bounds [of m] t d weights_sum r
    by blast
qed

text \<open>
  C4. The risk score is \<^verbatim>\<open>int(weighted_score * 1000)\<close>, which truncates toward zero
  (and is the floor here, the weighted score being non-negative); the category is the
  step function of the risk score with the inclusive upper bounds 200, 400, 600 and
  800, each label holding exactly one interval, so 200 and 201, 400 and 401, 600 and
  601, 800 and 801 lie on opposite sides of a boundary.
\<close>

theorem risk_score_truncates_and_category_follows_boundaries:
  "(case calculate_risk_score a m c b of
      Inl e \<Rightarrow> dict_get m ''total_transactions'' 1 = 0
    | Inr r \<Rightarrow>
        (\<exists>w. weighted_score r = Some w \<and> risk_score r = py_int (w * 1000) \<and>
             risk_score r = \<lfloor>w * 1000\<rfloor>) \<and>
        risk_category r = risk_category_of (risk_score r)) \<and>
   (\<bar>real_of_int (py_int x)\<bar> \<le> \<bar>x\<bar> \<and> \<bar>x\<bar> < \<bar>real_of_int (py_int x)\<bar> + 1 \<and>
    0 \<le> real_of_int (py_int x) * x) \<and>
   ((risk_category_of s = ''Very Low Risk'') = (s \<le> 200) \<and>
    (risk_category_of s = ''Low Risk'') = (200 < s \<and> s \<le> 400) \<and>
    (risk_category_of s = ''Medium Risk'') = (400 < s \<and> s \<le> 600) \<and>
    (risk_category_of s = ''High Risk'') = (600 < s \<and> s \<le> 800) \<and>
    (risk_category_of s = ''Very High Risk'') = (800 < s)) \<and>
   (risk_category_of 200 = ''Very Low Risk'' \<and> risk_category_of 201 = ''Low Risk'' \<and>
    risk_category_of 400 = ''Low Risk'' \<and> risk_category_of 401 = ''Medium Risk'' \<and>
    risk_category_of 600 = ''Medium Risk'' \<and> risk_category_of 601 = ''High Risk'' \<and>
    risk_category_of 800 = ''High Risk'' \<and> risk_category_of 801 = ''Very High Risk'')"
  using risk_score_is_truncation [where a = a and m = m and c = c and b = b]
    py_int_truncates [of x]
    category_intervals [of s] category_boundaries
  by blast


text \<open>
  C7. The regression fixture: the seven factor scores are 0.6, 0.7, 0.95, 0.9, 0.0, 0.8
  and 0.1; the balance ratio is exactly 0.01, which is not below 0.01, so the base score
  0.9 is not adjusted; the weighted score is 0.6825, the risk score 682 and the category
  "High Risk".
\<close>

theorem regression_fixture_scores_682_high_risk:
  "(let metrics = [''total_value_eth'' \<mapsto> 5, ''transaction_frequency'' \<mapsto> 0.05,
                   ''unique_counterparties'' \<mapsto> 3, ''total_transactions'' \<mapsto> 20,
                   ''failed_transaction_rate'' \<mapsto> 0.0, ''time_span_days'' \<mapsto> 10];
        compound = [''compound_count'' \<mapsto> 0];
        balance = [''current_balance_eth'' \<mapsto> 0.05]
    in calculate_transaction_volume_score metrics = 0.6 \<and>
       calculate_frequency_score metrics = 0.7 \<and>
       calculate_protocol_experience_score compound = 0.95 \<and>
       dict_get balance ''current_balance_eth'' 0 / max (dict_get metrics ''total_value_eth'' 0) 0.001
         = 0.01 \<and>
       calculate_balance_stability_score balance metrics = 0.9 \<and>
       calculate_failure_rate_score metrics = 0.0 \<and>
       calculate_counterparty_diversity_score metrics = Inr 0.8 \<and>
       calculate_recent_activity_score metrics = 0.1 \<and>
       calculate_risk_score address metrics compound balance =
         Inr \<lparr> wallet_address = address,
               risk_score = 682,
               risk_category = ''High Risk'',
               component_scores =
                 [(''transaction_volume'', 0.6),
                  (''transaction_frequency'', 0.7),
                  (''protocol_experience'', 0.95),
                  (''balance_stability'', 0.9),
                  (''failure_rate'', 0.0),
                  (''counterparty_diversity'', 0.8),
                  (''recent_activity'', 0.1)],
               weighted_score = Some 0.6825,
               transaction_metrics = metrics,
               compound_data = compound,
               balance_data = balance,
               error = None \<rparr>)"
proof -
  let ?m = "[''total_value_eth'' \<mapsto> 5, ''transaction_frequency'' \<mapsto> 0.05,
             ''unique_counterparties'' \<mapsto> 3, ''total_transactions'' \<mapsto> 20,
             ''failed_transaction_rate'' \<mapsto> 0.0, ''time_span_days'' \<mapsto> 10] :: dict"
  let ?c = "[''compound_count'' \<mapsto> 0] :: dict"
  let ?b = "[''current_balance_eth'' \<mapsto> 0.05] :: dict"
  have v: "calculate_transaction_volume_score ?m = 0.6"
    by (simp add: calculate_transaction_volume_score_def dict_get_def)
  have f: "calculate_frequency_score ?m = 0.7"
    by (simp add: calculate_frequency_score_def dict_get_def)
  have p: "calculate_protocol_experience_score ?c = 0.95"
    by (simp add: calculate_protocol_experience_score_def dict_get_def)
  have q: "dict_get ?b ''current_balance_eth'' 0 / max (dict_get ?m ''total_value_eth'' 0) 0.001 = 0.01"
    by (simp add: dict_get_def)
  have s: "calculate_balance_stability_score ?b ?m = 0.9"
    by (simp add: calculate_balance_stability_score_def dict_get_def)
  have r: "calculate_failure_rate_score ?m = 0.0"
    by (simp add: calculate_failure_rate_score_def dict_get_def)
  have d: "calculate_counterparty_diversity_score ?m = Inr 0.8"
    by (simp add: calculate_counterparty_diversity_score_def dict_get_def)
  have t: "calculate_recent_activity_score ?m = 0.1"
    by (simp add: calculate_recent_activity_score_def dict_get_def)
  have w: "weighted_of ?m ?c ?b 0.8 = 0.6825"
    unfolding weighted_of_def v f p s r t by simp
  have i: "py_int (0.6825 * 1000) = 682"
    by (simp add: py_int_def)
  have k: "risk_category_of 682 = ''High Risk''"
    by (simp add: risk_category_of_def)
  show ?thesis
    unfolding Let_def calculate_risk_score_Inr [OF d] w i k v f p s r t
    using v f p q s r d t by simp
qed

subsection \<open>Monotonicity of the step functions\<close>

lemma volume_antimono:
  "x \<le> y \<Longrightarrow>
   calculate_transaction_volume_score (m(''total_value_eth'' \<mapsto> y))
     \<le> calculate_transaction_volume_score (m(''total_value_eth'' \<mapsto> x))"
  by (simp add: calculate_transaction_volume_score_def dict_get_def)

lemma protocol_antimono:
  "x \<le> y \<Longrightarrow>
   calculate_protocol_experience_score (c(''compound_count'' \<mapsto> y))
     \<le> calculate_protocol_experience_score (c(''compound_count'' \<mapsto> x))"
  by (simp add: calculate_protocol_experience_score_def dict_get_def)

lemma diversity_antimono:
  "x \<le> y \<Longrightarrow>
   (case (calculate_counterparty_diversity_score (m(''unique_counterparties'' \<mapsto> x)),
          calculate_counterparty_diversity_score (m(''unique_counterparties'' \<mapsto> y))) of
      (Inr sx, Inr sy) \<Rightarrow> dict_get m ''total_transactions'' 1 \<noteq> 0 \<and> sy \<le> sx
    | (Inl ex, Inl ey) \<Rightarrow> dict_get m ''total_transactions'' 1 = 0
    | _ \<Rightarrow> False)"
  by (simp add: diversity_cases dict_get_def)

text \<open>
  C9. With every other entry fixed, a larger \<^verbatim>\<open>total_value_eth\<close> never gives a larger
  volume score, a larger \<^verbatim>\<open>compound_count\<close> never a larger protocol-experience score and
  a larger \<^verbatim>\<open>unique_counterparties\<close> never a larger diversity score. The diversity
  scorer returns for both values or (when \<^verbatim>\<open>total_transactions\<close> is zero) for neither.
\<close>

theorem factor_scores_decrease_with_their_input:
  assumes "x \<le> y"
  shows
   "calculate_transaction_volume_score (m(''total_value_eth'' \<mapsto> y))
      \<le> calculate_transaction_volume_score (m(''total_value_eth'' \<mapsto> x)) \<and>
    calculate_protocol_experience_score (c(''compound_count'' \<mapsto> y))
      \<le> calculate_protocol_experience_score (c(''compound_count'' \<mapsto> x)) \<and>
    (case (calculate_counterparty_diversity_score (m(''unique_counterparties'' \<mapsto> x)),
           calculate_counterparty_diversity_score (m(''unique_counterparties'' \<mapsto> y))) of
       (Inr sx, Inr sy) \<Rightarrow> dict_get m ''total_transactions'' 1 \<noteq> 0 \<and> sy \<le> sx
     | (Inl ex, Inl ey) \<Rightarrow> dict_get m ''total_transactions'' 1 = 0
     | _ \<Rightarrow> False)"
  using volume_antimono [OF assms] protocol_antimono [OF assms] diversity_antimono [OF assms]
  by blast

theorem factor_scores_decrease_with_their_input_witness:
  "(5::real) \<le> 50 \<and>
   calculate_transaction_volume_score ([''total_transactions'' \<mapsto> 20, ''total_value_eth'' \<mapsto> 50])
      \<le> calculate_transaction_volume_score ([''total_transactions'' \<mapsto> 20, ''total_value_eth'' \<mapsto> 5]) \<and>
   calculate_protocol_experience_score ([''compound_count'' \<mapsto> 50])
      \<le> calculate_protocol_experience_score ([''compound_count'' \<mapsto> 5]) \<and>
   calculate_counterparty_diversity_score
       ([''total_transactions'' \<mapsto> 20, ''unique_counterparties'' \<mapsto> 5]) = Inr 0.8 \<and>
   calculate_counterparty_diversity_score
       ([''total_transactions'' \<mapsto> 20, ''unique_counterparties'' \<mapsto> 50]) = Inr 0.15"
proof -
  have h: "(5::real) \<le> 50" by simp
  have d5: "calculate_counterparty_diversity_score
       ([''total_transactions'' \<mapsto> 20, ''unique_counterparties'' \<mapsto> 5]) = Inr 0.8"
    by (simp add: diversity_cases dict_get_def)
  have d50: "calculate_counterparty_diversity_score
       ([''total_transactions'' \<mapsto> 20, ''unique_counterparties'' \<mapsto> 50]) = Inr 0.15"
    by (simp add: diversity_cases dict_get_def)
  show ?thesis
    using h d5 d50
      factor_scores_decrease_with_their_input [OF h,
        of "[''total_transactions'' \<mapsto> 20]" "Map.empty"]
    by simp
qed

section \<open>Properties of the metrics normalizer\<close>

lemma analyze_empty:
  "analyze_transaction_patterns [] =
     Inr [''total_transactions'' \<mapsto> 0,
          ''avg_transaction_value'' \<mapsto> 0,
          ''transaction_frequency'' \<mapsto> 0,
          ''failed_transactions'' \<mapsto> 0,
          ''unique_counterparties'' \<mapsto> 0,
          ''time_span_days'' \<mapsto> 0]"
  by (simp add: analyze_transaction_patterns_def)

lemma analyze_nonempty:
  assumes "txs \<noteq> []" "sum_values 0 txs = Inr total_value" "timestamps_of txs = Inr ts"
  shows "analyze_transaction_patterns txs =
     Inr [''total_transactions'' \<mapsto> real (length txs),
          ''avg_transaction_value'' \<mapsto> total_value / real (length txs),
          ''transaction_frequency'' \<mapsto>
             (case ts of [] \<Rightarrow> 0
              | t # rest \<Rightarrow> real (length txs) /
                   max (real_of_int (fold max rest t - fold min rest t) / (24 * 3600)) 1),
          ''failed_transactions'' \<mapsto>
             real (length (filter (\<lambda>tx. tx_isError tx = Some ''1'') txs)),
          ''failed_transaction_rate'' \<mapsto>
             real (length (filter (\<lambda>tx. tx_isError tx = Some ''1'') txs)) / real (length txs),
          ''unique_counterparties'' \<mapsto> real (card (counterparties_of txs)),
          ''time_span_days'' \<mapsto>
             (case ts of [] \<Rightarrow> 0
              | t # rest \<Rightarrow> real_of_int (fold max rest t - fold min rest t) / (24 * 3600)),
          ''total_value_eth'' \<mapsto> total_value / 10 ^ 18]"
proof -
  have len: "0 < real (length txs)" using assms(1) by simp
  show ?thesis
    unfolding analyze_transaction_patterns_def Let_def
    using assms len by (cases ts) (simp_all del: fun_upd_apply)
qed

lemma analyze_raises_value:
  "txs \<noteq> [] \<Longrightarrow> sum_values 0 txs = Inl e \<Longrightarrow> analyze_transaction_patterns txs = Inl e"
  by (simp add: analyze_transaction_patterns_def Let_def)

lemma analyze_raises_stamp:
  "txs \<noteq> [] \<Longrightarrow> sum_values 0 txs = Inr v \<Longrightarrow> timestamps_of txs = Inl e \<Longrightarrow>
   analyze_transaction_patterns txs = Inl e"
  by (simp add: analyze_transaction_patterns_def Let_def)

lemma analyze_total_transactions:
  assumes "analyze_transaction_patterns txs = Inr m"
  shows "m ''total_transactions'' = Some (real (length txs))"
proof (cases "txs = []")
  case True
  then show ?thesis using assms by (auto simp add: analyze_empty)
next
  case False
  show ?thesis
  proof (cases "sum_values 0 txs")
    case (Inl e)
    then show ?thesis using assms analyze_raises_value [OF False Inl] by simp
  next
    case (Inr v)
    show ?thesis
    proof (cases "timestamps_of txs")
      case (Inl e)
      then show ?thesis using assms analyze_raises_stamp [OF False Inr Inl] by simp
    next
      case ts: (Inr ts)
      show ?thesis
        using assms unfolding analyze_nonempty [OF False Inr ts] by auto
    qed
  qed
qed


lemma empty_metrics_total_transactions:
  "analyze_transaction_patterns [] = Inr m \<Longrightarrow> dict_get m ''total_transactions'' 1 = 0"
  by (auto simp add: analyze_empty dict_get_def)

text \<open>
  C2. For the empty transaction list the normalizer returns, without an error, a
  dictionary of six entries, all zero. The keys \<^verbatim>\<open>failed_transaction_rate\<close> and
  \<^verbatim>\<open>total_value_eth\<close>, which the return for a non-empty list has, are not in it.
\<close>

theorem empty_list_metrics_lack_rate_and_volume:
  "\<exists>m. analyze_transaction_patterns [] = Inr m \<and>
       dom m = {''total_transactions'', ''avg_transaction_value'', ''transaction_frequency'',
                ''failed_transactions'', ''unique_counterparties'', ''time_span_days''} \<and>
       m ''failed_transaction_rate'' = None \<and>
       m ''total_value_eth'' = None \<and>
       m ''total_transactions'' = Some 0 \<and>
       m ''avg_transaction_value'' = Some 0 \<and>
       m ''transaction_frequency'' = Some 0 \<and>
       m ''failed_transactions'' = Some 0 \<and>
       m ''unique_counterparties'' = Some 0 \<and>
       m ''time_span_days'' = Some 0"
  unfolding analyze_empty by auto

lemma timestamps_nonempty: "timestamps_of txs = Inr (t # ts) \<Longrightarrow> txs \<noteq> []"
  by (cases txs) simp_all




section \<open>Properties of the pipeline\<close>

subsection \<open>Per-wallet processing\<close>

lemma process_wallet_tx_failure:
  "get_wallet_transactions p a = Failure msg \<Longrightarrow>
   process_wallet p a = create_error_result a (''Transaction fetch error: '' @ msg)"
  by (simp add: process_wallet_def process_wallet_body_def)

lemma process_wallet_scored:
  assumes "get_wallet_transactions p a = Success txs"
    and "txs \<noteq> []"
    and "analyze_transaction_patterns txs = Inr metrics"
    and "or_default (get_compound_interactions p a) default_compound_data = Inr c"
    and "or_default (get_wallet_balance_history p a) default_balance_data = Inr b"
  shows "calculate_risk_score a metrics c b = Inr (process_wallet p a) \<and>
         error (process_wallet p a) = None \<and>
         compound_data (process_wallet p a) = c \<and>
         balance_data (process_wallet p a) = b \<and>
         risk_score (process_wallet p a) \<le> 967"
proof -
  have "metrics ''total_transactions'' = Some (real (length txs))"
    by (rule analyze_total_transactions [OF assms(3)])
  then have "dict_get metrics ''total_transactions'' 1 \<noteq> 0"
    using assms(2) by (simp add: dict_get_def)
  then obtain r where r: "calculate_risk_score a metrics c b = Inr r"
    using calculate_risk_score_returns_iff [of a metrics c b] by blast
  have p: "process_wallet p a = r"
    by (simp add: process_wallet_def process_wallet_body_def assms r)
  obtain d where d: "calculate_counterparty_diversity_score metrics = Inr d"
    using r by (cases "calculate_counterparty_diversity_score metrics")
      (simp_all add: calculate_risk_score_Inl)
  have "py_int (weighted_of metrics c b d * 1000) \<le> 967"
    using weighted_of_bounds [OF diversity_bounds [OF d]] by (simp add: py_int_bounds)
  then show ?thesis
    using r unfolding p calculate_risk_score_Inr [OF d] by auto
qed

lemma process_wallet_cases:
  "(\<exists>msg. process_wallet p a = create_error_result a msg) \<or>
   (\<exists>m c b. calculate_risk_score a m c b = Inr (process_wallet p a))"
  unfolding process_wallet_def process_wallet_body_def
  by (auto split: response.splits sum.splits)

lemma process_wallet_address: "wallet_address (process_wallet p a) = a"
proof -
  have e: "\<And>msg. wallet_address (create_error_result a msg) = a"
    by (simp add: create_error_result_def)
  have s: "\<And>m c b r. calculate_risk_score a m c b = Inr r \<Longrightarrow> wallet_address r = a"
  proof -
    fix m c b r assume r: "calculate_risk_score a m c b = Inr r"
    obtain d where d: "calculate_counterparty_diversity_score m = Inr d"
      using r by (cases "calculate_counterparty_diversity_score m")
        (simp_all add: calculate_risk_score_Inl)
    show "wallet_address r = a"
      using r unfolding calculate_risk_score_Inr [OF d] by auto
  qed
  show ?thesis using process_wallet_cases [of p a] e s by metis
qed

text \<open>
  C1. The metrics the normalizer returns for the empty transaction list hold
  \<^verbatim>\<open>total_transactions = 0\<close>; on them the diversity scorer divides by zero and
  \<^verbatim>\<open>calculate_risk_score\<close> raises \<^verbatim>\<open>ZeroDivisionError\<close>, whatever the other
  dictionaries are. In \<^verbatim>\<open>process_wallet\<close> the exception is caught and the wallet gets
  the error placeholder.
\<close>

theorem empty_wallet_metrics_make_risk_score_raise:
  "(\<exists>m. analyze_transaction_patterns [] = Inr m \<and>
        m ''total_transactions'' = Some 0 \<and>
        calculate_counterparty_diversity_score m = Inl ZeroDivisionError \<and>
        calculate_risk_score address m compound balance = Inl ZeroDivisionError) \<and>
   calculate_risk_score address [''total_transactions'' \<mapsto> 0] compound balance
     = Inl ZeroDivisionError \<and>
   process_wallet
     \<lparr> get_wallet_transactions = (\<lambda>a. Success []),
       get_compound_interactions = (\<lambda>a. Success compound),
       get_wallet_balance_history = (\<lambda>a. Success balance) \<rparr> address
     = create_error_result address (str ZeroDivisionError)"
proof -
  obtain m where m: "analyze_transaction_patterns [] = Inr m"
    by (simp add: analyze_empty)
  have tt: "m ''total_transactions'' = Some 0"
    using m by (auto simp add: analyze_empty)
  have z: "dict_get m ''total_transactions'' 1 = 0"
    by (rule empty_metrics_total_transactions [OF m])
  have d: "calculate_counterparty_diversity_score m = Inl ZeroDivisionError"
    using z by (simp add: diversity_cases)
  have r: "\<And>c b. calculate_risk_score address m c b = Inl ZeroDivisionError"
    by (rule calculate_risk_score_Inl [OF d])
  have d0: "calculate_counterparty_diversity_score [''total_transactions'' \<mapsto> 0]
      = Inl ZeroDivisionError"
    by (simp add: diversity_cases dict_get_def)
  have r0: "calculate_risk_score address [''total_transactions'' \<mapsto> 0] compound balance
      = Inl ZeroDivisionError"
    by (rule calculate_risk_score_Inl [OF d0])
  have p: "process_wallet
     \<lparr> get_wallet_transactions = (\<lambda>a. Success []),
       get_compound_interactions = (\<lambda>a. Success compound),
       get_wallet_balance_history = (\<lambda>a. Success balance) \<rparr> address
     = create_error_result address (str ZeroDivisionError)"
    by (simp add: process_wallet_def process_wallet_body_def m or_default_def r)
  show ?thesis using m tt d r r0 p by blast
qed

text \<open>
  C5. A failed transaction-list fetch gives the error placeholder: risk score 999,
  category "Error - Unable to Assess", empty component, metric, usage and balance
  fields, and the provider's message in the error field (after the prefix
  "Transaction fetch error: "). A failed protocol-usage fetch, a failed balance fetch,
  or both, are replaced by the defaults \<^verbatim>\<open>compound_count = 0\<close> and
  \<^verbatim>\<open>current_balance_eth = 0\<close>, and a wallet with a non-empty, well-formed transaction
  list is scored by the engine on them: the result carries no error.
\<close>

theorem transaction_fetch_failure_is_fatal_other_failures_are_not:
  "(get_wallet_transactions p a = Failure msg \<longrightarrow>
      process_wallet p a =
        \<lparr> wallet_address = a,
          risk_score = 999,
          risk_category = ''Error - Unable to Assess'',
          component_scores = [],
          weighted_score = None,
          transaction_metrics = Map.empty,
          compound_data = Map.empty,
          balance_data = Map.empty,
          error = Some (''Transaction fetch error: '' @ msg) \<rparr>) \<and>
   (get_wallet_transactions p a1 = Success txs1 \<and> txs1 \<noteq> [] \<and>
    analyze_transaction_patterns txs1 = Inr metrics1 \<and>
    get_compound_interactions p a1 = Failure msg1 \<and>
    get_wallet_balance_history p a1 = Success balance1 \<longrightarrow>
      calculate_risk_score a1 metrics1 default_compound_data balance1
        = Inr (process_wallet p a1) \<and>
      error (process_wallet p a1) = None \<and> risk_score (process_wallet p a1) \<le> 967) \<and>
   (get_wallet_transactions p a2 = Success txs2 \<and> txs2 \<noteq> [] \<and>
    analyze_transaction_patterns txs2 = Inr metrics2 \<and>
    get_compound_interactions p a2 = Success compound2 \<and>
    get_wallet_balance_history p a2 = Failure msg2 \<longrightarrow>
      calculate_risk_score a2 metrics2 compound2 default_balance_data
        = Inr (process_wallet p a2) \<and>
      error (process_wallet p a2) = None \<and> risk_score (process_wallet p a2) \<le> 967) \<and>
   (get_wallet_transactions p a3 = Success txs3 \<and> txs3 \<noteq> [] \<and>
    analyze_transaction_patterns txs3 = Inr metrics3 \<and>
    get_compound_interactions p a3 = Failure msg3 \<and>
    get_wallet_balance_history p a3 = Failure msg3' \<longrightarrow>
      calculate_risk_score a3 metrics3 default_compound_data default_balance_data
        = Inr (process_wallet p a3) \<and>
      error (process_wallet p a3) = None \<and> risk_score (process_wallet p a3) \<le> 967) \<and>
   default_compound_data ''compound_count'' = Some 0 \<and>
   default_balance_data ''current_balance_eth'' = Some 0"
proof -
  have A: "get_wallet_transactions p a = Failure msg \<longrightarrow>
      process_wallet p a =
        \<lparr> wallet_address = a,
          risk_score = 999,
          risk_category = ''Error - Unable to Assess'',
          component_scores = [],
          weighted_score = None,
          transaction_metrics = Map.empty,
          compound_data = Map.empty,
          balance_data = Map.empty,
          error = Some (''Transaction fetch error: '' @ msg) \<rparr>"
    using process_wallet_tx_failure [of p a msg] by (simp add: create_error_result_def)
  have B: "get_wallet_transactions p a1 = Success txs1 \<and> txs1 \<noteq> [] \<and>
    analyze_transaction_patterns txs1 = Inr metrics1 \<and>
    get_compound_interactions p a1 = Failure msg1 \<and>
    get_wallet_balance_history p a1 = Success balance1 \<longrightarrow>
      calculate_risk_score a1 metrics1 default_compound_data balance1
        = Inr (process_wallet p a1) \<and>
      error (process_wallet p a1) = None \<and> risk_score (process_wallet p a1) \<le> 967"
    using process_wallet_scored [of p a1 txs1 metrics1 default_compound_data balance1]
    by (simp add: or_default_def)
  have C: "get_wallet_transactions p a2 = Success txs2 \<and> txs2 \<noteq> [] \<and>
    analyze_transaction_patterns txs2 = Inr metrics2 \<and>
    get_compound_interactions p a2 = Success compound2 \<and>
    get_wallet_balance_history p a2 = Failure msg2 \<longrightarrow>
      calculate_risk_score a2 metrics2 compound2 default_balance_data
        = Inr (process_wallet p a2) \<and>
      error (process_wallet p a2) = None \<and> risk_score (process_wallet p a2) \<le> 967"
    using process_wallet_scored [of p a2 txs2 metrics2 compound2 default_balance_data]
    by (simp add: or_default_def)
  have D: "get_wallet_transactions p a3 = Success txs3 \<and> txs3 \<noteq> [] \<and>
    analyze_transaction_patterns txs3 = Inr metrics3 \<and>
    get_compound_interactions p a3 = Failure msg3 \<and>
    get_wallet_balance_history p a3 = Failure msg3' \<longrightarrow>
      calculate_risk_score a3 metrics3 default_compound_data default_balance_data
        = Inr (process_wallet p a3) \<and>
      error (process_wallet p a3) = None \<and> risk_score (process_wallet p a3) \<le> 967"
    using process_wallet_scored [of p a3 txs3 metrics3 default_compound_data default_balance_data]
    by (simp add: or_default_def)
  have E: "default_compound_data ''compound_count'' = Some 0 \<and>
   default_balance_data ''current_balance_eth'' = Some 0"
    by (simp add: default_compound_data_def default_balance_data_def)
  show ?thesis using A B C D E by blast
qed


theorem transaction_fetch_failure_is_fatal_other_failures_are_not_witness:
  "(let p = \<lparr> get_wallet_transactions =
             (\<lambda>a. if a = ''A'' then Failure ''NOTOK'' else Success
            [\<lparr> tx_value = Parsed 0, tx_isError = Some ''0'', tx_to = Some ''0xb'',
               tx_from = Some ''0xa'', tx_timeStamp = Parsed 1000 \<rparr>,
             \<lparr> tx_value = Parsed 0, tx_isError = Some ''0'', tx_to = Some ''0xb'',
               tx_from = Some ''0xa'', tx_timeStamp = Parsed 4600 \<rparr>]),
           get_compound_interactions =
             (\<lambda>a. if a = ''C'' then Success [''success'' \<mapsto> 1, ''compound_count'' \<mapsto> 7]
                  else Failure ''NOTOK''),
           get_wallet_balance_history =
             (\<lambda>a. if a = ''B'' then Success [''success'' \<mapsto> 1, ''current_balance_eth'' \<mapsto> 2]
                  else Failure ''timeout'') \<rparr>
    in get_wallet_transactions p ''A'' = Failure ''NOTOK'' \<and>
       process_wallet p ''A'' =
         \<lparr> wallet_address = ''A'',
           risk_score = 999,
           risk_category = ''Error - Unable to Assess'',
           component_scores = [],
           weighted_score = None,
           transaction_metrics = Map.empty,
           compound_data = Map.empty,
           balance_data = Map.empty,
           error = Some ''Transaction fetch error: NOTOK'' \<rparr> \<and>
       get_compound_interactions p ''B'' = Failure ''NOTOK'' \<and>
       error (process_wallet p ''B'') = None \<and> risk_score (process_wallet p ''B'') \<le> 967 \<and>
       get_wallet_balance_history p ''C'' = Failure ''timeout'' \<and>
       error (process_wallet p ''C'') = None \<and> risk_score (process_wallet p ''C'') \<le> 967 \<and>
       get_compound_interactions p ''D'' = Failure ''NOTOK'' \<and>
       get_wallet_balance_history p ''D'' = Failure ''timeout'' \<and>
       error (process_wallet p ''D'') = None \<and> risk_score (process_wallet p ''D'') \<le> 967)"
proof -
  let ?txs = "[\<lparr> tx_value = Parsed 0, tx_isError = Some ''0'', tx_to = Some ''0xb'',
               tx_from = Some ''0xa'', tx_timeStamp = Parsed 1000 \<rparr>,
             \<lparr> tx_value = Parsed 0, tx_isError = Some ''0'', tx_to = Some ''0xb'',
               tx_from = Some ''0xa'', tx_timeStamp = Parsed 4600 \<rparr>]"
  let ?p = "\<lparr> get_wallet_transactions =
             (\<lambda>a. if a = ''A'' then Failure ''NOTOK'' else Success
            [\<lparr> tx_value = Parsed 0, tx_isError = Some ''0'', tx_to = Some ''0xb'',
               tx_from = Some ''0xa'', tx_timeStamp = Parsed 1000 \<rparr>,
             \<lparr> tx_value = Parsed 0, tx_isError = Some ''0'', tx_to = Some ''0xb'',
               tx_from = Some ''0xa'', tx_timeStamp = Parsed 4600 \<rparr>]),
           get_compound_interactions =
             (\<lambda>a. if a = ''C'' then Success [''success'' \<mapsto> 1, ''compound_count'' \<mapsto> 7]
                  else Failure ''NOTOK''),
           get_wallet_balance_history =
             (\<lambda>a. if a = ''B'' then Success [''success'' \<mapsto> 1, ''current_balance_eth'' \<mapsto> 2]
                  else Failure ''timeout'') \<rparr>"
  have ne: "?txs \<noteq> []" by simp
  have v: "sum_values 0 ?txs = Inr 0" by (simp add: float_value_def)
  have ts: "timestamps_of ?txs = Inr [1000, 4600]" by simp
  have r: "analyze_transaction_patterns ?txs = Inr (projr (analyze_transaction_patterns ?txs))"
    unfolding analyze_nonempty [OF ne v ts] by simp
  have tA: "get_wallet_transactions ?p ''A'' = Failure ''NOTOK''" by simp
  have tB: "get_wallet_transactions ?p ''B'' = Success ?txs" by simp
  have tC: "get_wallet_transactions ?p ''C'' = Success ?txs" by simp
  have tD: "get_wallet_transactions ?p ''D'' = Success ?txs" by simp
  have cB: "get_compound_interactions ?p ''B'' = Failure ''NOTOK''" by simp
  have cC: "get_compound_interactions ?p ''C'' =
      Success [''success'' \<mapsto> 1, ''compound_count'' \<mapsto> 7]" by simp
  have cD: "get_compound_interactions ?p ''D'' = Failure ''NOTOK''" by simp
  have bB: "get_wallet_balance_history ?p ''B'' =
      Success [''success'' \<mapsto> 1, ''current_balance_eth'' \<mapsto> 2]" by simp
  have bC: "get_wallet_balance_history ?p ''C'' = Failure ''timeout''" by simp
  have bD: "get_wallet_balance_history ?p ''D'' = Failure ''timeout''" by simp
  note inst = transaction_fetch_failure_is_fatal_other_failures_are_not
    [where p = ?p and a = "''A''" and msg = "''NOTOK''"
       and ?a1.0 = "''B''" and ?txs1.0 = ?txs
       and ?metrics1.0 = "projr (analyze_transaction_patterns ?txs)"
       and ?msg1.0 = "''NOTOK''"
       and ?balance1.0 = "[''success'' \<mapsto> 1, ''current_balance_eth'' \<mapsto> 2]"
       and ?a2.0 = "''C''" and ?txs2.0 = ?txs
       and ?metrics2.0 = "projr (analyze_transaction_patterns ?txs)"
       and ?compound2.0 = "[''success'' \<mapsto> 1, ''compound_count'' \<mapsto> 7]"
       and ?msg2.0 = "''timeout''"
       and ?a3.0 = "''D''" and ?txs3.0 = ?txs
       and ?metrics3.0 = "projr (analyze_transaction_patterns ?txs)"
       and ?msg3.0 = "''NOTOK''" and msg3' = "''timeout''"]
  have A: "process_wallet ?p ''A'' =
         \<lparr> wallet_address = ''A'',
           risk_score = 999,
           risk_category = ''Error - Unable to Assess'',
           component_scores = [],
           weighted_score = None,
           transaction_metrics = Map.empty,
           compound_data = Map.empty,
           balance_data = Map.empty,
           error = Some ''Transaction fetch error: NOTOK'' \<rparr>"
    using inst tA by simp
  have B: "error (process_wallet ?p ''B'') = None \<and> risk_score (process_wallet ?p ''B'') \<le> 967"
    using inst tB cB bB r ne by blast
  have C: "error (process_wallet ?p ''C'') = None \<and> risk_score (process_wallet ?p ''C'') \<le> 967"
    using inst tC cC bC r ne by blast
  have D: "error (process_wallet ?p ''D'') = None \<and> risk_score (process_wallet ?p ''D'') \<le> 967"
    using inst tD cD bD r ne by blast
  show ?thesis
    unfolding Let_def using tA A cB B bC C cD bD D by blast
qed

text \<open>
  A failed protocol-usage fetch does not by itself give a scored result: a transaction
  whose \<^verbatim>\<open>value\<close> does not convert makes the normalizer raise, and the wallet gets the
  error placeholder; so does a fetched list that is empty, through the division of C1.
\<close>

theorem usage_failure_does_not_always_give_a_scored_result:
  "get_compound_interactions
     \<lparr> get_wallet_transactions =
         (\<lambda>a. Success [\<lparr> tx_value = Unparsable, tx_isError = Some ''0'', tx_to = Some ''0xb'',
                         tx_from = Some ''0xa'', tx_timeStamp = Parsed 1000 \<rparr>]),
       get_compound_interactions = (\<lambda>a. Failure ''NOTOK''),
       get_wallet_balance_history =
         (\<lambda>a. Success [''success'' \<mapsto> 1, ''current_balance_eth'' \<mapsto> 2]) \<rparr> ''0xabc''
     = Failure ''NOTOK'' \<and>
   process_wallet
     \<lparr> get_wallet_transactions =
         (\<lambda>a. Success [\<lparr> tx_value = Unparsable, tx_isError = Some ''0'', tx_to = Some ''0xb'',
                         tx_from = Some ''0xa'', tx_timeStamp = Parsed 1000 \<rparr>]),
       get_compound_interactions = (\<lambda>a. Failure ''NOTOK''),
       get_wallet_balance_history =
         (\<lambda>a. Success [''success'' \<mapsto> 1, ''current_balance_eth'' \<mapsto> 2]) \<rparr> ''0xabc''
     = \<lparr> wallet_address = ''0xabc'',
         risk_score = 999,
         risk_category = ''Error - Unable to Assess'',
         component_scores = [],
         weighted_score = None,
         transaction_metrics = Map.empty,
         compound_data = Map.empty,
         balance_data = Map.empty,
         error = Some (str ValueError) \<rparr> \<and>
   process_wallet
     \<lparr> get_wallet_transactions = (\<lambda>a. Success []),
       get_compound_interactions = (\<lambda>a. Failure ''NOTOK''),
       get_wallet_balance_history =
         (\<lambda>a. Success [''success'' \<mapsto> 1, ''current_balance_eth'' \<mapsto> 2]) \<rparr> ''0xabc''
     = \<lparr> wallet_address = ''0xabc'',
         risk_score = 999,
         risk_category = ''Error - Unable to Assess'',
         component_scores = [],
         weighted_score = None,
         transaction_metrics = Map.empty,
         compound_data = Map.empty,
         balance_data = Map.empty,
         error = Some (str ZeroDivisionError) \<rparr>"
proof -
  let ?bad = "[\<lparr> tx_value = Unparsable, tx_isError = Some ''0'', tx_to = Some ''0xb'',
                 tx_from = Some ''0xa'', tx_timeStamp = Parsed 1000 \<rparr>]"
  have v: "sum_values 0 ?bad = Inl ValueError" by (simp add: float_value_def)
  have b: "analyze_transaction_patterns ?bad = Inl ValueError"
    by (rule analyze_raises_value [OF _ v]) simp
  obtain m where m: "analyze_transaction_patterns [] = Inr m"
    by (simp add: analyze_empty)
  have d: "calculate_counterparty_diversity_score m = Inl ZeroDivisionError"
    using empty_metrics_total_transactions [OF m] by (simp add: diversity_cases)
  have r: "\<And>a c b. calculate_risk_score a m c b = Inl ZeroDivisionError"
    by (rule calculate_risk_score_Inl [OF d])
  show ?thesis
    by (simp add: process_wallet_def process_wallet_body_def b m r or_default_def
        create_error_result_def del: str.simps)
qed

lemma scored_result_facts:
  assumes "calculate_risk_score a m c b = Inr r"
  shows "(\<exists>w. weighted_score r = Some w \<and> w \<le> 0.9675) \<and> risk_score r \<le> 967 \<and>
         error r = None"
proof -
  obtain d where d: "calculate_counterparty_diversity_score m = Inr d"
    using assms by (cases "calculate_counterparty_diversity_score m")
      (simp_all add: calculate_risk_score_Inl)
  have w: "0 \<le> weighted_of m c b d \<and> weighted_of m c b d \<le> 0.9675"
    by (rule weighted_of_bounds [OF diversity_bounds [OF d]])
  then have s: "py_int (weighted_of m c b d * 1000) \<le> 967"
    by (simp add: py_int_bounds)
  show ?thesis
    using assms w s unfolding calculate_risk_score_Inr [OF d] by auto
qed

lemma error_score_marks_error_rows:
  "(risk_score (process_wallet p a) = 999) = (error (process_wallet p a) \<noteq> None)"
proof -
  consider (failed) msg where "process_wallet p a = create_error_result a msg"
    | (scored) m c b where "calculate_risk_score a m c b = Inr (process_wallet p a)"
    using process_wallet_cases [of p a] by blast
  then show ?thesis
  proof cases
    case failed
    then show ?thesis by (simp add: create_error_result_def)
  next
    case scored
    then show ?thesis using scored_result_facts [OF scored] by simp
  qed
qed

text \<open>
  C10. Whenever \<^verbatim>\<open>calculate_risk_score\<close> returns, the weighted score is at most 0.9675
  and the risk score at most 967. The error placeholder has the risk score 999, so a
  row of \<^verbatim>\<open>process_wallet\<close> has the risk score 999 exactly when it carries an error.
\<close>

theorem scored_result_stays_below_error_score:
  assumes "calculate_risk_score a m c b = Inr r"
  shows "(\<exists>w. weighted_score r = Some w \<and> w \<le> 0.9675) \<and> risk_score r \<le> 967 \<and>
         error r = None \<and>
         risk_score (create_error_result a' msg) = 999 \<and>
         error (create_error_result a' msg) = Some msg \<and>
         risk_score r \<noteq> risk_score (create_error_result a' msg) \<and>
         (risk_score (process_wallet p a'') = 999) = (error (process_wallet p a'') \<noteq> None)"
proof -
  have e: "risk_score (create_error_result a' msg) = 999 \<and>
         error (create_error_result a' msg) = Some msg"
    by (simp add: create_error_result_def)
  have "risk_score r \<le> 967" using scored_result_facts [OF assms] by simp
  then have n: "risk_score r \<noteq> risk_score (create_error_result a' msg)"
    using e by simp
  show ?thesis
    using scored_result_facts [OF assms] e n error_score_marks_error_rows [of p a'']
    by blast
qed

theorem scored_result_stays_below_error_score_witness:
  "calculate_risk_score ''0xabc'' [''failed_transaction_rate'' \<mapsto> 1, ''time_span_days'' \<mapsto> 400]
       Map.empty Map.empty =
     Inr (projr (calculate_risk_score ''0xabc''
       [''failed_transaction_rate'' \<mapsto> 1, ''time_span_days'' \<mapsto> 400] Map.empty Map.empty)) \<and>
   weighted_score (projr (calculate_risk_score ''0xabc''
       [''failed_transaction_rate'' \<mapsto> 1, ''time_span_days'' \<mapsto> 400] Map.empty Map.empty))
     = Some 0.9675 \<and>
   risk_score (projr (calculate_risk_score ''0xabc''
       [''failed_transaction_rate'' \<mapsto> 1, ''time_span_days'' \<mapsto> 400] Map.empty Map.empty))
     = 967 \<and>
   risk_score (projr (calculate_risk_score ''0xabc''
       [''failed_transaction_rate'' \<mapsto> 1, ''time_span_days'' \<mapsto> 400] Map.empty Map.empty))
     \<noteq> risk_score (create_error_result ''0xabc'' ''Transaction fetch error: NOTOK'')"
proof -
  let ?m = "[''failed_transaction_rate'' \<mapsto> 1, ''time_span_days'' \<mapsto> 400] :: dict"
  let ?e = "Map.empty :: dict"
  have d: "calculate_counterparty_diversity_score ?m = Inr 1"
    by (simp add: diversity_cases dict_get_def)
  have v: "calculate_transaction_volume_score ?m = 0.9"
    by (simp add: calculate_transaction_volume_score_def dict_get_def)
  have f: "calculate_frequency_score ?m = 1"
    by (simp add: calculate_frequency_score_def dict_get_def)
  have p: "calculate_protocol_experience_score ?e = 0.95"
    by (simp add: calculate_protocol_experience_score_def dict_get_def)
  have s: "calculate_balance_stability_score ?e ?m = 1"
    by (simp add: calculate_balance_stability_score_def dict_get_def)
  have r: "calculate_failure_rate_score ?m = 1"
    by (simp add: calculate_failure_rate_score_def dict_get_def)
  have t: "calculate_recent_activity_score ?m = 1"
    by (simp add: calculate_recent_activity_score_def dict_get_def)
  have w: "weighted_of ?m ?e ?e 1 = 0.9675"
    unfolding weighted_of_def v f p s r t by simp
  have i: "py_int (0.9675 * 1000) = 967"
    by (simp add: py_int_def)
  have res: "calculate_risk_score ''0xabc'' ?m ?e ?e =
     Inr (projr (calculate_risk_score ''0xabc'' ?m ?e ?e))"
    unfolding calculate_risk_score_Inr [OF d] by simp
  have ws: "weighted_score (projr (calculate_risk_score ''0xabc'' ?m ?e ?e)) = Some 0.9675"
    unfolding calculate_risk_score_Inr [OF d] w by simp
  have rs: "risk_score (projr (calculate_risk_score ''0xabc'' ?m ?e ?e)) = 967"
    unfolding calculate_risk_score_Inr [OF d] w i by simp
  show ?thesis
    using res ws rs
      scored_result_stays_below_error_score [OF res, of "''0xabc''"
        "''Transaction fetch error: NOTOK''"]
    by blast
qed

subsection \<open>The batch loop\<close>

lemma process_wallets_writes_succeed:
  "(\<And>f t. to_csv f t = None) \<Longrightarrow>
   process_wallets p to_csv out i ws rs = rs @ map (process_wallet p) ws"
  by (induction ws arbitrary: i rs) (simp_all add: Let_def save_intermediate_results_def)

lemma row_of_wallet_id: "col_wallet_id (row_of (process_wallet p a)) = a"
  by (simp add: row_of_def process_wallet_address)

lemma one_row_per_wallet_when_writes_succeed:
  assumes "\<And>f t. to_csv f t = None" and "ws \<noteq> []"
  shows "\<exists>rows. process_wallet_list p to_csv ws out = Inr rows \<and>
           rows = map (\<lambda>a. row_of (process_wallet p a)) ws \<and>
           map col_wallet_id rows = ws"
proof -
  have "map col_wallet_id (map (\<lambda>a. row_of (process_wallet p a)) ws) = ws"
    by (induction ws) (simp_all add: row_of_wallet_id)
  then show ?thesis
    using assms(2)
    by (simp add: process_wallet_list_def Let_def process_wallets_writes_succeed [OF assms(1)]
        create_results_dataframe_def assms(1) comp_def print_summary_statistics_def)
qed

lemma empty_wallet_list_summary_raises:
  "process_wallet_list p to_csv [] out =
     (case to_csv out [] of Some e \<Rightarrow> Inl e | None \<Rightarrow> Inl (KeyError ''error''))"
  by (simp add: process_wallet_list_def Let_def create_results_dataframe_def
      print_summary_statistics_def split: option.splits)

text \<open>
  C6. Ten wallets, written to \<^verbatim>\<open>results/scores.csv\<close>, where the checkpoint file
  \<^verbatim>\<open>temp_results/scores.csv\<close> cannot be written: the tenth wallet's result is appended,
  the checkpoint write raises inside the same \<^verbatim>\<open>try\<close>, and the handler appends an error
  placeholder for the same wallet. The loop ends with eleven results and the final table
  has two rows for the tenth address.
\<close>

theorem failed_checkpoint_write_duplicates_the_tenth_wallet:
  "(let to_csv = (\<lambda>filename table.
           if filename = ''temp_results/scores.csv''
           then Some (OSError ''Cannot save file into a non-existent directory'')
           else None);
        wallets = [''w1'', ''w2'', ''w3'', ''w4'', ''w5'', ''w6'', ''w7'', ''w8'', ''w9'', ''w10'']
    in process_wallets p to_csv ''results/scores.csv'' 1 wallets [] =
         map (process_wallet p) wallets @
           [create_error_result ''w10''
              ''Critical error: Cannot save file into a non-existent directory''] \<and>
       length (process_wallets p to_csv ''results/scores.csv'' 1 wallets []) = 11 \<and>
       map_sum id (map col_wallet_id)
           (process_wallet_list p to_csv wallets ''results/scores.csv'') =
         Inr [''w1'', ''w2'', ''w3'', ''w4'', ''w5'', ''w6'', ''w7'', ''w8'', ''w9'', ''w10'',
              ''w10''])"
proof -
  let ?store = "(\<lambda>filename table.
           if filename = ''temp_results/scores.csv''
           then Some (OSError ''Cannot save file into a non-existent directory'')
           else None) :: store"
  let ?ws = "[''w1'', ''w2'', ''w3'', ''w4'', ''w5'', ''w6'', ''w7'', ''w8'', ''w9'', ''w10'']"
  have loop: "process_wallets p ?store ''results/scores.csv'' 1 ?ws [] =
         map (process_wallet p) ?ws @
           [create_error_result ''w10''
              ''Critical error: Cannot save file into a non-existent directory'']"
    by (simp add: Let_def save_intermediate_results_def)
  have e: "col_wallet_id (row_of (create_error_result ''w10''
              ''Critical error: Cannot save file into a non-existent directory'')) = ''w10''"
    by (simp add: row_of_def create_error_result_def)
  have final: "map_sum id (map col_wallet_id)
           (process_wallet_list p ?store ?ws ''results/scores.csv'') =
         Inr [''w1'', ''w2'', ''w3'', ''w4'', ''w5'', ''w6'', ''w7'', ''w8'', ''w9'', ''w10'',
              ''w10'']"
    unfolding process_wallet_list_def Let_def loop
    by (simp add: create_results_dataframe_def row_of_wallet_id e print_summary_statistics_def)
  show ?thesis
    unfolding Let_def using loop final by simp
qed

end
